theory Spec2Isabelle
  imports Complex_Main "HOL-Library.Sublist"
begin

section \<open>Python string primitives used by the quiz parser\<close>

text \<open>
  Strings are lists of characters. The model agrees with Python on ASCII text: \<open>upper\<close>
  maps the letters a-z to A-Z and leaves every other character alone, and the whitespace
  removed by \<open>strip\<close> is the ASCII whitespace of \<open>str.isspace\<close> (codes 9-13, 28-31, 32).
\<close>

definition to_upper :: "char \<Rightarrow> char" where
  "to_upper c =
     (case map_of (zip ''abcdefghijklmnopqrstuvwxyz'' ''ABCDEFGHIJKLMNOPQRSTUVWXYZ'') c of
        None \<Rightarrow> c
      | Some u \<Rightarrow> u)"

definition upper :: "string \<Rightarrow> string" where
  "upper s = map to_upper s"

definition is_space :: "char \<Rightarrow> bool" where
  "is_space c = (c \<in> set [CHR 0x09, CHR 0x0A, CHR 0x0B, CHR 0x0C, CHR 0x0D,
                            CHR 0x1C, CHR 0x1D, CHR 0x1E, CHR 0x1F, CHR 0x20])"

definition strip :: "string \<Rightarrow> string" where
  "strip s = rev (dropWhile is_space (rev (dropWhile is_space s)))"

text \<open>\<open>needle in hay\<close>: the substring test of Python.\<close>

fun contains :: "string \<Rightarrow> string \<Rightarrow> bool" where
  "contains needle [] = (needle = [])"
| "contains needle (c # cs) = (prefix needle (c # cs) \<or> contains needle cs)"

text \<open>\<open>s.startswith(tuple)\<close>: some element of the tuple is a prefix of \<open>s\<close>.\<close>

definition startswith_any :: "string list \<Rightarrow> string \<Rightarrow> bool" where
  "startswith_any ps s = list_ex (\<lambda>p. prefix p s) ps"

text \<open>\<open>s.split(sep)\<close> for a one-character separator: never empty, one piece more than
  there are separators.\<close>

fun split_on :: "char \<Rightarrow> string \<Rightarrow> string list" where
  "split_on sep [] = [[]]"
| "split_on sep (c # cs) =
     (if c = sep then [] # split_on sep cs
      else (case split_on sep cs of
              [] \<Rightarrow> [[c]]
            | w # ws \<Rightarrow> (c # w) # ws))"

datatype py_error = IndexError | ZeroDivisionError

text \<open>\<open>s.split(":", 1)[1]\<close>: the text after the first colon; without a colon the split has
  one piece only and the index raises.\<close>

definition after_colon :: "string \<Rightarrow> string" where
  "after_colon s = tl (dropWhile (\<lambda>c. c \<noteq> CHR '':'') s)"

definition split_colon_1 :: "string \<Rightarrow> py_error + string" where
  "split_colon_1 s = (if CHR '':'' \<in> set s then Inr (after_colon s) else Inl IndexError)"

section \<open>The quiz response parser (\<open>parse_quiz_question\<close>)\<close>

text \<open>
  The local variables of the parser, which are also the four fields of the dictionary it
  returns. Option keys are one-character strings, modelled as characters.
\<close>

record quiz_data =
  question :: string
  options :: "char \<rightharpoonup> string"
  correct :: string
  explanation :: string

definition init_data :: quiz_data where
  "init_data = \<lparr>question = [], options = Map.empty, correct = [], explanation = []\<rparr>"

text \<open>\<open>lines = [line.strip() for line in response.split('\n') if line.strip()]\<close>\<close>

definition split_lines :: "string \<Rightarrow> string list" where
  "split_lines response = map strip (filter (\<lambda>line. strip line \<noteq> []) (split_on CHR 0x0A response))"

text \<open>The stop test of the explanation loop, on the upper-cased line:
  \<open>any(keyword in next_line.upper() for keyword in [...])\<close>.\<close>

definition stop_keywords :: "string list" where
  "stop_keywords = [''QUESTION:'', ''CORRECT:'', ''A)'', ''B)'', ''C)'', ''D)'']"

definition hits_section :: "string \<Rightarrow> bool" where
  "hits_section next_upper = list_ex (\<lambda>keyword. contains keyword next_upper) stop_keywords"

text \<open>The inner \<open>while j < len(lines)\<close> loop: the lines from \<open>j\<close> on and the explanation so
  far go in, the final explanation and the lines from the final \<open>j\<close> on come out.\<close>

fun absorb :: "string list \<Rightarrow> string \<Rightarrow> string \<times> string list" where
  "absorb [] expl = (expl, [])"
| "absorb (l # ls) expl =
     (let next_line = strip l in
      if hits_section (upper next_line) then (expl, l # ls)
      else absorb ls (expl @ '' '' @ next_line))"

text \<open>The option text of a line that starts with a two-character option prefix.\<close>

definition option_value :: "string \<Rightarrow> string" where
  "option_value line =
     (let v = (if length line > 2 then strip (drop 2 line) else [])
      in if prefix '')'' v then strip (drop 1 v) else v)"

text \<open>The \<open>for char in correct_part\<close> loop with its \<open>break\<close>.\<close>

definition pick_correct :: "string \<Rightarrow> string \<Rightarrow> string" where
  "pick_correct correct_part old =
     (case List.find (\<lambda>char. char \<in> set ''ABCD'') correct_part of
        None \<Rightarrow> old
      | Some char \<Rightarrow> [char])"

text \<open>
  One pass through the body of \<open>while i < len(lines)\<close>, at the line \<open>lines[i]\<close> with the
  lines after it: the new variables and the lines from the new \<open>i\<close> on, or the exception
  the body raises.
\<close>

definition step :: "string \<Rightarrow> string list \<Rightarrow> quiz_data \<Rightarrow> py_error + (quiz_data \<times> string list)" where
  "step l ls st =
     (let line = strip l; line_upper = upper line in
      if contains ''QUESTION:'' line_upper then
        (if CHR '':'' \<in> set line then
           (case split_colon_1 line of
              Inl e \<Rightarrow> Inl e
            | Inr rest \<Rightarrow>
                (let question_part = strip rest in
                 if question_part \<noteq> [] then Inr (st\<lparr>question := question_part\<rparr>, ls)
                 else (case ls of
                         [] \<Rightarrow> Inr (st, [])
                       | n # ls' \<Rightarrow> Inr (st\<lparr>question := strip n\<rparr>, ls'))))
         else Inr (st, ls))
      else if startswith_any [''A)'', ''B)'', ''C)'', ''D)''] line then
        (case line of
           [] \<Rightarrow> Inl IndexError
         | c # _ \<Rightarrow> Inr (st\<lparr>options := (options st)(to_upper c \<mapsto> option_value line)\<rparr>, ls))
      else if contains ''CORRECT:'' line_upper then
        (case split_colon_1 line of
           Inl e \<Rightarrow> Inl e
         | Inr rest \<Rightarrow> Inr (st\<lparr>correct := pick_correct (upper (strip rest)) (correct st)\<rparr>, ls))
      else if contains ''EXPLANATION:'' line_upper then
        (case split_colon_1 line of
           Inl e \<Rightarrow> Inl e
         | Inr rest \<Rightarrow>
             (let explanation_part = strip rest;
                  r = absorb ls (if explanation_part \<noteq> [] then explanation_part
                                 else explanation st)
              in Inr (st\<lparr>explanation := fst r\<rparr>, snd r)))
      else Inr (st, ls))"

text \<open>The whole \<open>while\<close> loop.\<close>

function scan :: "string list \<Rightarrow> quiz_data \<Rightarrow> py_error + quiz_data" where
  "scan [] st = Inr st"
| "scan (l # ls) st =
     (case step l ls st of
        Inl e \<Rightarrow> Inl e
      | Inr (st', ls') \<Rightarrow> scan ls' st')"
  by pat_completeness auto
termination
proof (relation "measure (\<lambda>(ls, st). length ls)")
  show "wf (measure (\<lambda>(ls, st). length ls))"
    by simp
next
  fix l :: string and ls ls' :: "string list" and st st' :: quiz_data and r
  assume run: "step l ls st = Inr r" and r: "(st', ls') = r"
  have shorter: "length (snd (absorb xs e)) \<le> length xs" for xs e
    by (induction xs arbitrary: e) (auto simp: Let_def le_SucI)
  from run r have "length ls' \<le> length ls"
    using shorter [of ls]
    by (auto simp: step_def Let_def split: if_splits sum.splits list.splits)
  then show "((ls', st'), (l # ls, st)) \<in> measure (\<lambda>(ls, st). length ls)"
    by simp
qed

text \<open>The validation after the loop and the returned dictionary.\<close>

definition validate :: "quiz_data \<Rightarrow> quiz_data option" where
  "validate st =
     (if question st = [] then None
      else if card (dom (options st)) < 4 then None
      else if correct st \<notin> set [''A'', ''B'', ''C'', ''D''] then None
      else Some st)"

text \<open>The body of the \<open>try\<close>, and the function with its \<open>except Exception: return None\<close>.\<close>

definition parse_body :: "string \<Rightarrow> py_error + quiz_data option" where
  "parse_body response =
     (case scan (split_lines response) init_data of
        Inl e \<Rightarrow> Inl e
      | Inr st \<Rightarrow> Inr (validate st))"

definition parse_quiz_question :: "string \<Rightarrow> quiz_data option" where
  "parse_quiz_question response =
     (case parse_body response of Inl e \<Rightarrow> None | Inr r \<Rightarrow> r)"

section \<open>The quiz page (\<open>show_quiz_page\<close>)\<close>

text \<open>The dictionary \<open>st.session_state.quiz_state\<close>.\<close>

record quiz_state =
  questions :: "quiz_data list"
  current_question_index :: nat
  total_questions_selected :: nat
  score :: nat
  answered :: bool
  selected_answer :: "string option"
  quiz_started :: bool
  quiz_completed :: bool

definition fresh_state :: quiz_state where
  "fresh_state = \<lparr>questions = [], current_question_index = 0, total_questions_selected = 5,
     score = 0, answered = False, selected_answer = None, quiz_started = False,
     quiz_completed = False\<rparr>"

text \<open>What the start action writes to the page.\<close>

datatype ui_msg =
    Write_generating nat nat
  | Warning_retrying nat
  | Success_generated nat
  | Error_failed

text \<open>
  The language model is outside the program: \<open>llm k\<close> is the text that the \<open>k\<close>-th call of
  \<open>generate_quiz_question\<close> of one start action returns (the error text too, which that
  function returns instead of raising). The loop counts its calls in \<open>calls\<close>.
\<close>

record gen_state =
  generated :: "quiz_data list"
  calls :: nat
  shown :: "ui_msg list"

text \<open>\<open>if quiz_data and quiz_data.get("question") and quiz_data.get("options")\<close>\<close>

definition accepted :: "quiz_data option \<Rightarrow> quiz_data option" where
  "accepted quiz_data =
     (case quiz_data of
        None \<Rightarrow> None
      | Some q \<Rightarrow> if question q \<noteq> [] \<and> options q \<noteq> Map.empty then Some q else None)"

text \<open>One call of the generator followed by the parser.\<close>

definition ask :: "(nat \<Rightarrow> string) \<Rightarrow> gen_state \<Rightarrow> quiz_data option \<times> gen_state" where
  "ask llm gs = (accepted (parse_quiz_question (llm (calls gs))), gs\<lparr>calls := calls gs + 1\<rparr>)"

text \<open>The body of \<open>for i in range(num_questions)\<close>.\<close>

definition fill_slot :: "(nat \<Rightarrow> string) \<Rightarrow> nat \<Rightarrow> gen_state \<Rightarrow> nat \<Rightarrow> gen_state" where
  "fill_slot llm num_questions gs i =
     (let gs1 = gs\<lparr>shown := shown gs @ [Write_generating (i + 1) num_questions]\<rparr>;
          (quiz_data, gs2) = ask llm gs1
      in case quiz_data of
           Some q \<Rightarrow> gs2\<lparr>generated := generated gs2 @ [q]\<rparr>
         | None \<Rightarrow>
             (let gs3 = gs2\<lparr>shown := shown gs2 @ [Warning_retrying (i + 1)]\<rparr>;
                  (quiz_data', gs4) = ask llm gs3
              in case quiz_data' of
                   Some q \<Rightarrow> gs4\<lparr>generated := generated gs4 @ [q]\<rparr>
                 | None \<Rightarrow> gs4))"

definition generate_all :: "(nat \<Rightarrow> string) \<Rightarrow> nat \<Rightarrow> gen_state" where
  "generate_all llm num_questions =
     foldl (fill_slot llm num_questions) \<lparr>generated = [], calls = 0, shown = []\<rparr> [0..<num_questions]"

text \<open>The handler of the Start Quiz button.\<close>

definition start_quiz :: "nat \<Rightarrow> (nat \<Rightarrow> string) \<Rightarrow> quiz_state \<times> ui_msg list" where
  "start_quiz num_questions llm =
     (let st = \<lparr>questions = [], current_question_index = 0,
                 total_questions_selected = num_questions, score = 0, answered = False,
                 selected_answer = None, quiz_started = True, quiz_completed = False\<rparr>;
          gs = generate_all llm num_questions
      in if generated gs \<noteq> []
         then (st\<lparr>questions := generated gs\<rparr>,
               shown gs @ [Success_generated (length (generated gs))])
         else (st\<lparr>quiz_started := False\<rparr>, shown gs @ [Error_failed]))"

text \<open>The handler of the Submit Answer button; \<open>selected\<close> is what the radio returned.\<close>

definition submit_answer :: "string option \<Rightarrow> quiz_state \<Rightarrow> quiz_state" where
  "submit_answer selected st =
     (case selected of
        None \<Rightarrow> st
      | Some [] \<Rightarrow> st
      | Some (c # _) \<Rightarrow>
          (let selected_letter = [c];
               current_question = questions st ! current_question_index st;
               st1 = st\<lparr>selected_answer := Some selected_letter, answered := True\<rparr>
           in if selected_letter = correct current_question
              then st1\<lparr>score := score st1 + 1\<rparr> else st1))"

text \<open>One run of the page with one button pressed. A button that the page does not draw
  in the current state cannot be pressed: the state stays as it is.\<close>

datatype event =
    StartQuiz nat "nat \<Rightarrow> string"
  | SubmitAnswer "string option"
  | NextQuestion
  | FinishQuiz
  | TakeAnotherQuiz

definition show_quiz_page :: "event \<Rightarrow> quiz_state \<Rightarrow> quiz_state \<times> ui_msg list" where
  "show_quiz_page ev st =
     (if \<not> quiz_started st \<and> \<not> quiz_completed st then
        (case ev of
           StartQuiz num_questions llm \<Rightarrow> start_quiz num_questions llm
         | _ \<Rightarrow> (st, []))
      else if quiz_started st \<and> \<not> quiz_completed st then
        (if current_question_index st < length (questions st) then
           (case ev of
              SubmitAnswer selected \<Rightarrow>
                if \<not> answered st then (submit_answer selected st, []) else (st, [])
            | NextQuestion \<Rightarrow>
                if answered st \<and> current_question_index st + 1 < length (questions st)
                then (st\<lparr>current_question_index := current_question_index st + 1,
                         answered := False, selected_answer := None\<rparr>, [])
                else (st, [])
            | FinishQuiz \<Rightarrow>
                if answered st \<and> \<not> current_question_index st + 1 < length (questions st)
                then (st\<lparr>quiz_completed := True\<rparr>, [])
                else (st, [])
            | _ \<Rightarrow> (st, []))
         else (st, []))
      else if quiz_completed st then
        (case ev of
           TakeAnotherQuiz \<Rightarrow> (fresh_state, [])
         | _ \<Rightarrow> (st, []))
      else (st, []))"

definition run_events :: "event list \<Rightarrow> quiz_state \<Rightarrow> quiz_state" where
  "run_events evs st = foldl (\<lambda>s ev. fst (show_quiz_page ev s)) st evs"

text \<open>\<open>percentage = (score / total) * 100\<close> of the results view, in exact arithmetic.\<close>

definition percentage :: "quiz_state \<Rightarrow> py_error + real" where
  "percentage st =
     (if total_questions_selected st = 0 then Inl ZeroDivisionError
      else Inr (real (score st) / real (total_questions_selected st) * 100))"

section \<open>The answer clean-up of the chatbot page\<close>

definition fallback_answer :: string where
  "fallback_answer = ''Hare Krishna! I apologize, but I'm having trouble processing your question. Please try asking in a different way.''"

definition clean_artifacts :: "string \<Rightarrow> string" where
  "clean_artifacts ai_response =
     (if contains ''retrieve'' ai_response \<and> contains ''{'' ai_response then fallback_answer
      else ai_response)"

definition ensure_salutation :: "string \<Rightarrow> string" where
  "ensure_salutation ai_response =
     (if \<not> prefix ''Hare Krishna'' ai_response then ''Hare Krishna! '' @ ai_response
      else ai_response)"

definition postprocess :: "string \<Rightarrow> string" where
  "postprocess ai_response = ensure_salutation (clean_artifacts ai_response)"

section \<open>Example responses\<close>




section \<open>Basic facts about the string primitives\<close>



















lemma pick_correct_cases:
  "pick_correct p old = old \<or> pick_correct p old \<in> {''A'', ''B'', ''C'', ''D''}"
proof (cases "List.find (\<lambda>char. char \<in> set ''ABCD'') p")
  case None
  then show ?thesis by (simp add: pick_correct_def)
next
  case (Some c)
  then have "c \<in> set ''ABCD''"
    by (auto simp: find_Some_iff)
  with Some show ?thesis
    by (auto simp: pick_correct_def)
qed











section \<open>Evaluating the parser on the examples\<close>





section \<open>The parser is total\<close>



section \<open>The validation gate\<close>



section \<open>The salutation of the chatbot\<close>

text \<open>
  Claim C9: an answer that does not start with the salutation gets it prepended once, an
  answer that starts with it is left as it is, and the step is idempotent: its result
  starts with the salutation, so a second application changes nothing.
\<close>

theorem salutation_idempotent:
  "(\<not> prefix ''Hare Krishna'' r \<longrightarrow> ensure_salutation r = ''Hare Krishna! '' @ r) \<and>
   (prefix ''Hare Krishna'' r \<longrightarrow> ensure_salutation r = r) \<and>
   prefix ''Hare Krishna'' (ensure_salutation r) \<and>
   ensure_salutation (ensure_salutation r) = ensure_salutation r"
  by (simp add: ensure_salutation_def)

theorem salutation_idempotent_witness:
  "ensure_salutation ''Peace'' = ''Hare Krishna! Peace'' \<and>
   ensure_salutation (ensure_salutation ''Peace'') = ''Hare Krishna! Peace''"
proof -
  have np: "\<not> prefix ''Hare Krishna'' ''Peace''"
    by simp
  from salutation_idempotent [of "''Peace''"] np
  have a: "ensure_salutation ''Peace'' = ''Hare Krishna! '' @ ''Peace''"
    by blast
  from salutation_idempotent [of "''Peace''"]
  have b: "ensure_salutation (ensure_salutation ''Peace'') = ensure_salutation ''Peace''"
    by blast
  from a have c: "ensure_salutation ''Peace'' = ''Hare Krishna! Peace''"
    by simp
  from b c have "ensure_salutation (ensure_salutation ''Peace'') = ''Hare Krishna! Peace''"
    by (rule trans)
  with c show ?thesis ..
qed

end
